theory Spec2Isabelle
  imports Main "HOL-Library.Word" "HOL-Library.Monad_Syntax"
begin

section \<open>Node buffers\<close>

text \<open>
  A Node \<open>Buffer\<close> is a fixed-length array of bytes. The numeric fields of the commands are
  JavaScript numbers holding integers; they are modelled as \<open>int\<close>. A call that throws
  (a \<open>RangeError\<close> of a buffer accessor) is the result \<open>None\<close>.
\<close>

type_synonym Buffer = "8 word list"

definition alloc :: "nat \<Rightarrow> Buffer" where
  "alloc n = replicate n 0"

text \<open>The byte that a typed array keeps of a number: its value modulo 256.\<close>

definition byte :: "int \<Rightarrow> 8 word" where
  "byte v = word_of_int v"

text \<open>
  The writers check the value against the range of the integer type and the offset against
  the length of the buffer, and throw when either is out of range.
\<close>

definition writeUInt8 :: "int \<Rightarrow> nat \<Rightarrow> Buffer \<Rightarrow> Buffer option" where
  "writeUInt8 v off buf =
     (if v < 0 \<or> 255 < v \<or> length buf < off + 1 then None
      else Some (buf[off := byte v]))"

definition writeUInt16BE :: "int \<Rightarrow> nat \<Rightarrow> Buffer \<Rightarrow> Buffer option" where
  "writeUInt16BE v off buf =
     (if v < 0 \<or> 65535 < v \<or> length buf < off + 2 then None
      else Some (buf[off := byte (v div 256), off + 1 := byte v]))"

definition writeUInt32BE :: "int \<Rightarrow> nat \<Rightarrow> Buffer \<Rightarrow> Buffer option" where
  "writeUInt32BE v off buf =
     (if v < 0 \<or> 4294967295 < v \<or> length buf < off + 4 then None
      else Some (buf[off := byte (v div 16777216),
                     off + 1 := byte (v div 65536),
                     off + 2 := byte (v div 256),
                     off + 3 := byte v]))"

definition writeInt32BE :: "int \<Rightarrow> nat \<Rightarrow> Buffer \<Rightarrow> Buffer option" where
  "writeInt32BE v off buf =
     (if v < - 2147483648 \<or> 2147483647 < v \<or> length buf < off + 4 then None
      else Some (buf[off := byte (v div 16777216),
                     off + 1 := byte (v div 65536),
                     off + 2 := byte (v div 256),
                     off + 3 := byte v]))"

text \<open>
  An indexed assignment \<open>buffer[i] = b\<close> never throws; outside the buffer it has no effect,
  as \<open>list_update\<close> has none.
\<close>

definition setByte :: "nat \<Rightarrow> 8 word \<Rightarrow> Buffer \<Rightarrow> Buffer" where
  "setByte i b buf = buf[i := b]"

text \<open>
  The value of the bytes at an offset, big-endian: unsigned, or signed in two's complement
  (the sign is in the first byte).
\<close>

definition u8 :: "Buffer \<Rightarrow> nat \<Rightarrow> int" where
  "u8 buf off = uint (buf ! off)"

definition s8 :: "Buffer \<Rightarrow> nat \<Rightarrow> int" where
  "s8 buf off = sint (buf ! off)"

definition u16be :: "Buffer \<Rightarrow> nat \<Rightarrow> int" where
  "u16be buf off = uint (buf ! off) * 256 + uint (buf ! (off + 1))"

definition u32be :: "Buffer \<Rightarrow> nat \<Rightarrow> int" where
  "u32be buf off =
     uint (buf ! off) * 16777216 + uint (buf ! (off + 1)) * 65536
       + uint (buf ! (off + 2)) * 256 + uint (buf ! (off + 3))"

definition s32be :: "Buffer \<Rightarrow> nat \<Rightarrow> int" where
  "s32be buf off =
     sint (buf ! off) * 16777216 + uint (buf ! (off + 1)) * 65536
       + uint (buf ! (off + 2)) * 256 + uint (buf ! (off + 3))"

text \<open>The readers throw when the bytes they need lie beyond the end of the buffer.\<close>

definition readUInt8 :: "Buffer \<Rightarrow> nat \<Rightarrow> int option" where
  "readUInt8 buf off = (if length buf < off + 1 then None else Some (u8 buf off))"

definition readInt8 :: "Buffer \<Rightarrow> nat \<Rightarrow> int option" where
  "readInt8 buf off = (if length buf < off + 1 then None else Some (s8 buf off))"

definition readUInt16BE :: "Buffer \<Rightarrow> nat \<Rightarrow> int option" where
  "readUInt16BE buf off = (if length buf < off + 2 then None else Some (u16be buf off))"

definition readUInt32BE :: "Buffer \<Rightarrow> nat \<Rightarrow> int option" where
  "readUInt32BE buf off = (if length buf < off + 4 then None else Some (u32be buf off))"

definition readInt32BE :: "Buffer \<Rightarrow> nat \<Rightarrow> int option" where
  "readInt32BE buf off = (if length buf < off + 4 then None else Some (s32be buf off))"

text \<open>
  An indexed read \<open>rawCommand[i]\<close> is the byte at \<open>i\<close>, and \<open>undefined\<close> beyond the end of
  the buffer. In \<open>deserialize\<close> below every indexed read is at an offset below 56 and is
  followed by \<open>readUInt8(56)\<close>, which throws on a buffer that short: the call as a whole
  throws whenever an indexed read is \<open>undefined\<close>, so the model gives \<open>None\<close> there.
\<close>

definition byteAt :: "Buffer \<Rightarrow> nat \<Rightarrow> int option" where
  "byteAt buf i = (if length buf < i + 1 then None else Some (u8 buf i))"

section \<open>Decoding helpers of the utility module\<close>

text \<open>
  Modelled from the spec: \<open>Util.parseNumberBetween\<close> (lib/atemUtil.ts is not among the
  sources). The spec's decode policy for a numeric field whose raw value lies outside the
  valid range is "to clamp to the nearest valid bound and continue".
\<close>

definition parseNumberBetween :: "int \<Rightarrow> int \<Rightarrow> int \<Rightarrow> int" where
  "parseNumberBetween num lo hi = (if hi < num then hi else if num < lo then lo else num)"

text \<open>
  Modelled from the spec: \<open>Util.parseEnum\<close> (lib/atemUtil.ts is not among the sources), for
  the spec's "enumerated fields validated against a closed set of known values". The set,
  here \<open>Enums.BorderBevel\<close>, is not among the sources either and is a parameter; a value
  outside the set is not decoded.
\<close>

definition parseEnum :: "int \<Rightarrow> int list \<Rightarrow> int option" where
  "parseEnum v enum = (if v \<in> set enum then Some v else None)"

section \<open>The DVE keyer commands\<close>

record UpstreamKeyerDVESettings =
  sizeX :: int
  sizeY :: int
  positionX :: int
  positionY :: int
  rotation :: int
  borderEnabled :: bool
  shadowEnabled :: bool
  borderBevel :: int
  borderOuterWidth :: int
  borderInnerWidth :: int
  borderOuterSoftness :: int
  borderInnerSoftness :: int
  borderBevelSoftness :: int
  borderBevelPosition :: int
  borderOpacity :: int
  borderHue :: int
  borderSaturation :: int
  borderLuma :: int
  lightSourceDirection :: int
  lightSourceAltitude :: int
  maskEnabled :: bool
  maskTop :: int
  maskBottom :: int
  maskLeft :: int
  maskRight :: int
  rate :: int

text \<open>
  The setter \<open>MixEffectKeyDVECommand\<close> (CKDV); \<open>flag\<close> is the mask of changed properties
  that the command inherits from \<open>AbstractCommand\<close>. Its fields \<open>mixEffect\<close>,
  \<open>upstreamKeyerId\<close> and \<open>properties\<close> carry the prefix \<open>set\<close> here, since the notifier
  below has fields of the same names.
\<close>

record MixEffectKeyDVECommand =
  flag :: int
  setMixEffect :: int
  setUpstreamKeyerId :: int
  setProperties :: UpstreamKeyerDVESettings

definition serialize :: "MixEffectKeyDVECommand \<Rightarrow> Buffer option" where
  "serialize this = do {
     let buffer = alloc 64;
     buffer \<leftarrow> writeUInt32BE (flag this) 0 buffer;
     buffer \<leftarrow> writeUInt8 (setMixEffect this) 4 buffer;
     buffer \<leftarrow> writeUInt8 (setUpstreamKeyerId this) 5 buffer;

     buffer \<leftarrow> writeUInt32BE (sizeX (setProperties this)) 8 buffer;
     buffer \<leftarrow> writeUInt32BE (sizeY (setProperties this)) 12 buffer;
     buffer \<leftarrow> writeInt32BE (positionX (setProperties this)) 16 buffer;
     buffer \<leftarrow> writeInt32BE (positionY (setProperties this)) 20 buffer;
     buffer \<leftarrow> writeInt32BE (rotation (setProperties this)) 24 buffer;

     let buffer = setByte 28 (if borderEnabled (setProperties this) then 1 else 0) buffer;
     let buffer = setByte 29 (if shadowEnabled (setProperties this) then 1 else 0) buffer;
     buffer \<leftarrow> writeUInt8 (borderBevel (setProperties this)) 30 buffer;
     buffer \<leftarrow> writeUInt16BE (borderOuterWidth (setProperties this)) 32 buffer;
     buffer \<leftarrow> writeUInt16BE (borderInnerWidth (setProperties this)) 34 buffer;
     buffer \<leftarrow> writeUInt8 (borderOuterSoftness (setProperties this)) 36 buffer;
     buffer \<leftarrow> writeUInt8 (borderInnerSoftness (setProperties this)) 37 buffer;
     buffer \<leftarrow> writeUInt8 (borderBevelSoftness (setProperties this)) 38 buffer;
     buffer \<leftarrow> writeUInt8 (borderBevelPosition (setProperties this)) 39 buffer;
     buffer \<leftarrow> writeUInt8 (borderOpacity (setProperties this)) 40 buffer;

     buffer \<leftarrow> writeUInt16BE (borderHue (setProperties this)) 42 buffer;
     buffer \<leftarrow> writeUInt16BE (borderSaturation (setProperties this)) 44 buffer;
     buffer \<leftarrow> writeUInt16BE (borderLuma (setProperties this)) 46 buffer;

     buffer \<leftarrow> writeUInt16BE (lightSourceDirection (setProperties this)) 48 buffer;
     buffer \<leftarrow> writeUInt8 (lightSourceAltitude (setProperties this)) 50 buffer;

     let buffer = setByte 51 (if maskEnabled (setProperties this) then 1 else 0) buffer;
     buffer \<leftarrow> writeUInt16BE (maskTop (setProperties this)) 52 buffer;
     buffer \<leftarrow> writeUInt16BE (maskBottom (setProperties this)) 54 buffer;
     buffer \<leftarrow> writeUInt16BE (maskLeft (setProperties this)) 56 buffer;
     buffer \<leftarrow> writeUInt16BE (maskRight (setProperties this)) 58 buffer;

     buffer \<leftarrow> writeUInt8 (rate (setProperties this)) 60 buffer;

     Some buffer
   }"

text \<open>The notifier \<open>MixEffectKeyDVEUpdateCommand\<close> (KeDV).\<close>

record MixEffectKeyDVEUpdateCommand =
  mixEffect :: int
  upstreamKeyerId :: int
  properties :: UpstreamKeyerDVESettings

definition deserialize :: "int list \<Rightarrow> Buffer \<Rightarrow> MixEffectKeyDVEUpdateCommand option" where
  "deserialize BorderBevel rawCommand = do {
     b0 \<leftarrow> byteAt rawCommand 0;
     b1 \<leftarrow> byteAt rawCommand 1;
     r4 \<leftarrow> readUInt32BE rawCommand 4;
     r8 \<leftarrow> readUInt32BE rawCommand 8;
     r12 \<leftarrow> readInt32BE rawCommand 12;
     r16 \<leftarrow> readInt32BE rawCommand 16;
     r20 \<leftarrow> readInt32BE rawCommand 20;
     b24 \<leftarrow> byteAt rawCommand 24;
     b25 \<leftarrow> byteAt rawCommand 25;
     r26 \<leftarrow> readUInt8 rawCommand 26;
     bevel \<leftarrow> parseEnum r26 BorderBevel;
     r28 \<leftarrow> readUInt16BE rawCommand 28;
     r30 \<leftarrow> readUInt16BE rawCommand 30;
     r32 \<leftarrow> readInt8 rawCommand 32;
     r33 \<leftarrow> readInt8 rawCommand 33;
     r34 \<leftarrow> readInt8 rawCommand 34;
     r35 \<leftarrow> readInt8 rawCommand 35;
     r36 \<leftarrow> readInt8 rawCommand 36;
     r38 \<leftarrow> readUInt16BE rawCommand 38;
     r40 \<leftarrow> readUInt16BE rawCommand 40;
     r42 \<leftarrow> readUInt16BE rawCommand 42;
     r44 \<leftarrow> readUInt16BE rawCommand 44;
     r46 \<leftarrow> readUInt8 rawCommand 46;
     b47 \<leftarrow> byteAt rawCommand 47;
     r48 \<leftarrow> readUInt16BE rawCommand 48;
     r50 \<leftarrow> readUInt16BE rawCommand 50;
     r52 \<leftarrow> readUInt16BE rawCommand 52;
     r54 \<leftarrow> readUInt16BE rawCommand 54;
     r56 \<leftarrow> readUInt8 rawCommand 56;
     Some \<lparr>
       mixEffect = parseNumberBetween b0 0 3,
       upstreamKeyerId = parseNumberBetween b1 0 3,
       properties = \<lparr>
         sizeX = parseNumberBetween r4 0 (2 ^ 32 - 1),
         sizeY = parseNumberBetween r8 0 (2 ^ 32 - 1),

         positionX = parseNumberBetween r12 (- 1000 * 1000) (1000 * 1000),
         positionY = parseNumberBetween r16 (- 1000 * 1000) (1000 * 1000),
         rotation = parseNumberBetween r20 (- 332230) 332230,

         borderEnabled = (b24 = 1),
         shadowEnabled = (b25 = 1),
         borderBevel = bevel,
         borderOuterWidth = parseNumberBetween r28 0 1600,
         borderInnerWidth = parseNumberBetween r30 0 1600,
         borderOuterSoftness = parseNumberBetween r32 0 100,
         borderInnerSoftness = parseNumberBetween r33 0 100,
         borderBevelSoftness = parseNumberBetween r34 0 100,
         borderBevelPosition = parseNumberBetween r35 0 100,

         borderOpacity = parseNumberBetween r36 0 100,
         borderHue = parseNumberBetween r38 0 3600,
         borderSaturation = parseNumberBetween r40 0 1000,
         borderLuma = parseNumberBetween r42 0 1000,

         lightSourceDirection = parseNumberBetween r44 0 3599,
         lightSourceAltitude = parseNumberBetween r46 0 100,

         maskEnabled = (b47 = 1),
         maskTop = parseNumberBetween r48 0 38000,
         maskBottom = parseNumberBetween r50 0 38000,
         maskLeft = parseNumberBetween r52 0 52000,
         maskRight = parseNumberBetween r54 0 52000,

         rate = parseNumberBetween r56 0 250
       \<rparr>
     \<rparr>
   }"

text \<open>
  The ranges that \<open>deserialize\<close> documents for the numeric fields. \<open>borderBevel\<close> is a
  member of the enumeration, which the wire carries in one byte.
\<close>

definition inRange :: "int \<Rightarrow> int \<Rightarrow> int \<Rightarrow> bool" where
  "inRange lo hi v = (lo \<le> v \<and> v \<le> hi)"

definition validDVESettings :: "int list \<Rightarrow> UpstreamKeyerDVESettings \<Rightarrow> bool" where
  "validDVESettings BorderBevel p =
     (inRange 0 (2 ^ 32 - 1) (sizeX p) \<and> inRange 0 (2 ^ 32 - 1) (sizeY p) \<and>
      inRange (- 1000 * 1000) (1000 * 1000) (positionX p) \<and>
      inRange (- 1000 * 1000) (1000 * 1000) (positionY p) \<and>
      inRange (- 332230) 332230 (rotation p) \<and>
      borderBevel p \<in> set BorderBevel \<and> inRange 0 255 (borderBevel p) \<and>
      inRange 0 1600 (borderOuterWidth p) \<and> inRange 0 1600 (borderInnerWidth p) \<and>
      inRange 0 100 (borderOuterSoftness p) \<and> inRange 0 100 (borderInnerSoftness p) \<and>
      inRange 0 100 (borderBevelSoftness p) \<and> inRange 0 100 (borderBevelPosition p) \<and>
      inRange 0 100 (borderOpacity p) \<and> inRange 0 3600 (borderHue p) \<and>
      inRange 0 1000 (borderSaturation p) \<and> inRange 0 1000 (borderLuma p) \<and>
      inRange 0 3599 (lightSourceDirection p) \<and> inRange 0 100 (lightSourceAltitude p) \<and>
      inRange 0 38000 (maskTop p) \<and> inRange 0 38000 (maskBottom p) \<and>
      inRange 0 52000 (maskLeft p) \<and> inRange 0 52000 (maskRight p) \<and>
      inRange 0 250 (rate p))"


text \<open>
  Two closed forms used in the proofs: the 64 bytes that \<open>serialize\<close> produces for a command
  whose fields fit their integer types, and the command that \<open>deserialize\<close> produces from a
  buffer of at least 57 bytes.
\<close>

definition wire :: "MixEffectKeyDVECommand \<Rightarrow> Buffer" where
  "wire c =
     [byte (flag c div 16777216),
      byte (flag c div 65536),
      byte (flag c div 256),
      byte (flag c),
      byte (setMixEffect c),
      byte (setUpstreamKeyerId c),
      0,
      0,
      byte (sizeX (setProperties c) div 16777216),
      byte (sizeX (setProperties c) div 65536),
      byte (sizeX (setProperties c) div 256),
      byte (sizeX (setProperties c)),
      byte (sizeY (setProperties c) div 16777216),
      byte (sizeY (setProperties c) div 65536),
      byte (sizeY (setProperties c) div 256),
      byte (sizeY (setProperties c)),
      byte (positionX (setProperties c) div 16777216),
      byte (positionX (setProperties c) div 65536),
      byte (positionX (setProperties c) div 256),
      byte (positionX (setProperties c)),
      byte (positionY (setProperties c) div 16777216),
      byte (positionY (setProperties c) div 65536),
      byte (positionY (setProperties c) div 256),
      byte (positionY (setProperties c)),
      byte (rotation (setProperties c) div 16777216),
      byte (rotation (setProperties c) div 65536),
      byte (rotation (setProperties c) div 256),
      byte (rotation (setProperties c)),
      (if borderEnabled (setProperties c) then 1 else 0),
      (if shadowEnabled (setProperties c) then 1 else 0),
      byte (borderBevel (setProperties c)),
      0,
      byte (borderOuterWidth (setProperties c) div 256),
      byte (borderOuterWidth (setProperties c)),
      byte (borderInnerWidth (setProperties c) div 256),
      byte (borderInnerWidth (setProperties c)),
      byte (borderOuterSoftness (setProperties c)),
      byte (borderInnerSoftness (setProperties c)),
      byte (borderBevelSoftness (setProperties c)),
      byte (borderBevelPosition (setProperties c)),
      byte (borderOpacity (setProperties c)),
      0,
      byte (borderHue (setProperties c) div 256),
      byte (borderHue (setProperties c)),
      byte (borderSaturation (setProperties c) div 256),
      byte (borderSaturation (setProperties c)),
      byte (borderLuma (setProperties c) div 256),
      byte (borderLuma (setProperties c)),
      byte (lightSourceDirection (setProperties c) div 256),
      byte (lightSourceDirection (setProperties c)),
      byte (lightSourceAltitude (setProperties c)),
      (if maskEnabled (setProperties c) then 1 else 0),
      byte (maskTop (setProperties c) div 256),
      byte (maskTop (setProperties c)),
      byte (maskBottom (setProperties c) div 256),
      byte (maskBottom (setProperties c)),
      byte (maskLeft (setProperties c) div 256),
      byte (maskLeft (setProperties c)),
      byte (maskRight (setProperties c) div 256),
      byte (maskRight (setProperties c)),
      byte (rate (setProperties c)),
      0,
      0,
      0]"

definition decoded :: "int list \<Rightarrow> Buffer \<Rightarrow> MixEffectKeyDVEUpdateCommand option" where
  "decoded BorderBevel buf =
     (if u8 buf 26 \<in> set BorderBevel then Some \<lparr>
       mixEffect = parseNumberBetween (u8 buf 0) 0 3,
       upstreamKeyerId = parseNumberBetween (u8 buf 1) 0 3,
       properties = \<lparr>
         sizeX = parseNumberBetween (u32be buf 4) 0 4294967295,
         sizeY = parseNumberBetween (u32be buf 8) 0 4294967295,
         positionX = parseNumberBetween (s32be buf 12) (- 1000000) 1000000,
         positionY = parseNumberBetween (s32be buf 16) (- 1000000) 1000000,
         rotation = parseNumberBetween (s32be buf 20) (- 332230) 332230,
         borderEnabled = (u8 buf 24 = 1),
         shadowEnabled = (u8 buf 25 = 1),
         borderBevel = u8 buf 26,
         borderOuterWidth = parseNumberBetween (u16be buf 28) 0 1600,
         borderInnerWidth = parseNumberBetween (u16be buf 30) 0 1600,
         borderOuterSoftness = parseNumberBetween (s8 buf 32) 0 100,
         borderInnerSoftness = parseNumberBetween (s8 buf 33) 0 100,
         borderBevelSoftness = parseNumberBetween (s8 buf 34) 0 100,
         borderBevelPosition = parseNumberBetween (s8 buf 35) 0 100,
         borderOpacity = parseNumberBetween (s8 buf 36) 0 100,
         borderHue = parseNumberBetween (u16be buf 38) 0 3600,
         borderSaturation = parseNumberBetween (u16be buf 40) 0 1000,
         borderLuma = parseNumberBetween (u16be buf 42) 0 1000,
         lightSourceDirection = parseNumberBetween (u16be buf 44) 0 3599,
         lightSourceAltitude = parseNumberBetween (u8 buf 46) 0 100,
         maskEnabled = (u8 buf 47 = 1),
         maskTop = parseNumberBetween (u16be buf 48) 0 38000,
         maskBottom = parseNumberBetween (u16be buf 50) 0 38000,
         maskLeft = parseNumberBetween (u16be buf 52) 0 52000,
         maskRight = parseNumberBetween (u16be buf 54) 0 52000,
         rate = parseNumberBetween (u8 buf 56) 0 250 \<rparr> \<rparr>
      else None)"

section \<open>The mirrored state tree\<close>

text \<open>
  Modelled from the spec: the state module (state/index.ts, state/video) is not among the
  sources. The tree is "a nested, keyed structure": mix-effect buses by index, keyers nested
  under each bus. Only the nodes that the DVE notifier addresses are spelled out; what else
  a node holds is one opaque value of type \<open>'x\<close>.
\<close>

record 'x UpstreamKeyer =
  dveSettings :: UpstreamKeyerDVESettings
  keyerOther :: 'x

record 'x MixEffect =
  upstreamKeyers :: "int \<rightharpoonup> 'x UpstreamKeyer"
  mixEffectOther :: 'x

record 'x AtemVideoState =
  ME :: "int \<rightharpoonup> 'x MixEffect"
  videoOther :: 'x

record DeviceInfo =
  apiVersion :: int

record 'x AtemState =
  video :: "'x AtemVideoState"
  info :: DeviceInfo
  stateOther :: 'x

text \<open>
  Modelled from the spec: \<open>getMe\<close> and \<open>getUpstreamKeyer\<close> return the addressed node,
  "creating nested nodes lazily if addressed indices have not been seen before". What a
  fresh node holds is a parameter (\<open>newMixEffect\<close>, \<open>newUpstreamKeyer\<close>). Each returns the
  node together with the parent that now holds it.
\<close>

definition getMe ::
  "(int \<Rightarrow> 'x MixEffect) \<Rightarrow> int \<Rightarrow> 'x AtemVideoState \<Rightarrow> 'x MixEffect \<times> 'x AtemVideoState" where
  "getMe newMixEffect index v =
     (case ME v index of
        Some me \<Rightarrow> (me, v)
      | None \<Rightarrow> (newMixEffect index, v\<lparr>ME := (ME v)(index \<mapsto> newMixEffect index)\<rparr>))"

definition getUpstreamKeyer ::
  "(int \<Rightarrow> 'x UpstreamKeyer) \<Rightarrow> int \<Rightarrow> 'x MixEffect \<Rightarrow> 'x UpstreamKeyer \<times> 'x MixEffect" where
  "getUpstreamKeyer newUpstreamKeyer index me =
     (case upstreamKeyers me index of
        Some usk \<Rightarrow> (usk, me)
      | None \<Rightarrow> (newUpstreamKeyer index,
                 me\<lparr>upstreamKeyers := (upstreamKeyers me)(index \<mapsto> newUpstreamKeyer index)\<rparr>))"

text \<open>A number in a template literal: the decimal digits of an integer.\<close>

fun digits :: "nat \<Rightarrow> string" where
  "digits n =
     (if n < 10 then [''0123456789'' ! n]
      else digits (n div 10) @ [''0123456789'' ! (n mod 10)])"

declare digits.simps [simp del]

definition numberToString :: "int \<Rightarrow> string" where
  "numberToString i = (if i < 0 then CHR ''-'' # digits (nat (- i)) else digits (nat i))"

text \<open>
  \<open>applyToState\<close> of the notifier. The source assigns \<open>dveSettings\<close> on the keyer object
  that the two getters returned, which lives in the tree; the model writes the keyer back
  into its mix effect and the mix effect back into the video state.
\<close>

definition applyToState ::
  "(int \<Rightarrow> 'x MixEffect) \<Rightarrow> (int \<Rightarrow> 'x UpstreamKeyer) \<Rightarrow> MixEffectKeyDVEUpdateCommand
     \<Rightarrow> 'x AtemState \<Rightarrow> string \<times> 'x AtemState" where
  "applyToState newMixEffect newUpstreamKeyer this state =
     (let (me, video1) = getMe newMixEffect (mixEffect this) (video state);
          (upstreamKeyer, me1) = getUpstreamKeyer newUpstreamKeyer (upstreamKeyerId this) me;
          upstreamKeyer1 = upstreamKeyer\<lparr>dveSettings := properties this\<rparr>;
          me2 = me1\<lparr>upstreamKeyers :=
                  (upstreamKeyers me1)(upstreamKeyerId this \<mapsto> upstreamKeyer1)\<rparr>;
          video2 = video1\<lparr>ME := (ME video1)(mixEffect this \<mapsto> me2)\<rparr>
      in (''video.ME.'' @ numberToString (mixEffect this) @ ''.upstreamKeyers.''
            @ numberToString (upstreamKeyerId this) @ ''.dveSettings'',
          state\<lparr>video := video2\<rparr>))"

section \<open>The client: sent queue, socket events, state mutation\<close>

text \<open>
  Command objects are shared and mutated (\<open>sendCommand\<close> stores the promise's \<open>resolve\<close>
  and \<open>reject\<close> on the command it was given), so they live in a heap and are named by
  reference. A promise is named by a number; what is recorded of it is the list of calls
  to its \<open>resolve\<close> and \<open>reject\<close> functions, from which its state follows: the first call
  settles it, later calls have no effect.
\<close>

type_synonym ref = nat
type_synonym promise = nat

type_synonym props = "(string \<times> int) list"

datatype Command =
    SuperSourcePropertiesV8Command int props
  | SuperSourcePropertiesCommand props
  | OtherCommand string

record CommandObject =
  body :: Command
  resolve :: "promise option"
  reject :: "promise option"

datatype Settlement = Resolve | Reject

datatype SettleValue = CommandValue ref | ErrorValue string

type_synonym promiseCall = "promise \<times> Settlement \<times> SettleValue"

datatype PromiseState = Pending | Fulfilled SettleValue | Rejected SettleValue

definition promiseState :: "promiseCall list \<Rightarrow> promise \<Rightarrow> PromiseState" where
  "promiseState calls p =
     (case filter (\<lambda>c. fst c = p) calls of
        [] \<Rightarrow> Pending
      | (_, Resolve, v) # _ \<Rightarrow> Fulfilled v
      | (_, Reject, v) # _ \<Rightarrow> Rejected v)"

text \<open>
  Modelled from the spec: the socket (lib/atemSocket.ts is not among the sources). The
  session has a lifecycle and a "local sequence counter for outgoing packets"; tracking
  identifiers "are assigned monotonically by the issuing layer and are independent of wire
  sequence numbers". \<open>nextPacketId\<close> is the getter that \<open>sendCommand\<close> reads its tracking
  identifier from, \<open>socketSendCommand\<close> is \<open>socket._sendCommand\<close>, which takes the command
  and its tracking identifier over for framing.
\<close>

datatype SessionState = Idle | Handshaking | Established | SessionDisconnected

record AtemSocket =
  session :: SessionState
  localSequence :: int
  trackingCounter :: int
  outbox :: "(ref \<times> int) list"

definition nextPacketId :: "AtemSocket \<Rightarrow> int \<times> AtemSocket" where
  "nextPacketId s = (trackingCounter s + 1, s\<lparr>trackingCounter := trackingCounter s + 1\<rparr>)"

definition socketSendCommand :: "ref \<Rightarrow> int \<Rightarrow> AtemSocket \<Rightarrow> AtemSocket" where
  "socketSendCommand command trackingId s = s\<lparr>outbox := outbox s @ [(command, trackingId)]\<rparr>"

text \<open>
  A command that the socket has decoded: the name of its class and its \<open>applyToState\<close>,
  when it has one, which returns one path or a list of paths.
\<close>

datatype ChangePaths = Path string | Paths "string list"

record 'x ReceivedCommand =
  constructorName :: string
  commandApplyToState :: "('x AtemState \<Rightarrow> ChangePaths \<times> 'x AtemState) option"

datatype 'x Emitted =
    EmitError string
  | EmitConnected
  | EmitDisconnected
  | EmitStateChanged "'x AtemState" string
  | EmitReceivedCommand "'x ReceivedCommand"

record 'x Atem =
  state :: "'x AtemState"
  socket :: AtemSocket
  sentQueue :: "int \<rightharpoonup> ref"
  heap :: "ref \<Rightarrow> CommandObject"
  nextRef :: ref
  promiseCalls :: "promiseCall list"
  nextPromise :: promise
  emitted :: "'x Emitted list"
  handledByDataTransferManager :: "'x ReceivedCommand list"

text \<open>
  \<open>sendCommand\<close> returns the new promise. \<open>sendFailure\<close> is the outcome of the promise of
  \<open>socket._sendCommand\<close>: \<open>None\<close> when it is fulfilled, \<open>Some e\<close> when it is rejected with
  \<open>e\<close>, which \<open>.catch(reject)\<close> passes on to the promise of the command.
\<close>

definition sendCommand :: "string option \<Rightarrow> ref \<Rightarrow> 'x Atem \<Rightarrow> promise \<times> 'x Atem" where
  "sendCommand sendFailure command a =
     (let (packetId, socket1) = nextPacketId (socket a);
          a1 = a\<lparr>socket := socket1, sentQueue := (sentQueue a)(packetId \<mapsto> command)\<rparr>;
          p = nextPromise a1;
          a2 = a1\<lparr>nextPromise := p + 1,
                  heap := (heap a1)(command := (heap a1 command)\<lparr>resolve := Some p, reject := Some p\<rparr>)\<rparr>;
          a3 = a2\<lparr>socket := socketSendCommand command packetId (socket a2)\<rparr>;
          a4 = (case sendFailure of
                  None \<Rightarrow> a3
                | Some e \<Rightarrow> a3\<lparr>promiseCalls := promiseCalls a3 @ [(p, Reject, ErrorValue e)]\<rparr>)
      in (p, a4))"

text \<open>
  \<open>_resolveCommand\<close> and \<open>_rejectCommand\<close>. Calling a \<open>resolve\<close> or \<open>reject\<close> that was never
  set throws a \<open>TypeError\<close>: the result \<open>None\<close>.
\<close>

definition resolveCommand :: "int \<Rightarrow> 'x Atem \<Rightarrow> 'x Atem option" where
  "resolveCommand trackingId a =
     (case sentQueue a trackingId of
        None \<Rightarrow> Some a
      | Some command \<Rightarrow>
          (case resolve (heap a command) of
             None \<Rightarrow> None
           | Some p \<Rightarrow>
               Some (a\<lparr>promiseCalls := promiseCalls a @ [(p, Resolve, CommandValue command)],
                       sentQueue := (sentQueue a)(trackingId := None)\<rparr>)))"

definition rejectCommand :: "int \<Rightarrow> 'x Atem \<Rightarrow> 'x Atem option" where
  "rejectCommand trackingId a =
     (case sentQueue a trackingId of
        None \<Rightarrow> Some a
      | Some command \<Rightarrow>
          (case reject (heap a command) of
             None \<Rightarrow> None
           | Some p \<Rightarrow>
               Some (a\<lparr>promiseCalls := promiseCalls a @ [(p, Reject, CommandValue command)],
                       sentQueue := (sentQueue a)(trackingId := None)\<rparr>)))"

text \<open>
  \<open>_mutateState\<close>. \<open>dataTransferCommands\<close> are the names that the module
  commands/DataTransfer exports (not among the sources): a parameter.
\<close>

definition mutateState :: "string list \<Rightarrow> 'x ReceivedCommand \<Rightarrow> 'x Atem \<Rightarrow> 'x Atem" where
  "mutateState dataTransferCommands command a =
     (let a1 = (case commandApplyToState command of
                  None \<Rightarrow> a
                | Some apply \<Rightarrow>
                    (let (changePaths, state1) = apply (state a);
                         changePaths1 = (case changePaths of Paths ps \<Rightarrow> ps | Path p \<Rightarrow> [p])
                     in a\<lparr>state := state1,
                          emitted := emitted a @ map (EmitStateChanged state1) changePaths1\<rparr>))
      in a1\<lparr>handledByDataTransferManager := handledByDataTransferManager a1
               @ map (\<lambda>commandName. command)
                   (filter (\<lambda>commandName. constructorName command = commandName)
                      dataTransferCommands)\<rparr>)"

text \<open>The decoded DVE notifier as the socket hands it over.\<close>

definition receivedDVEUpdate ::
  "(int \<Rightarrow> 'x MixEffect) \<Rightarrow> (int \<Rightarrow> 'x UpstreamKeyer) \<Rightarrow> MixEffectKeyDVEUpdateCommand
     \<Rightarrow> 'x ReceivedCommand" where
  "receivedDVEUpdate newMixEffect newUpstreamKeyer this =
     \<lparr>constructorName = ''MixEffectKeyDVEUpdateCommand'',
      commandApplyToState = Some (\<lambda>st.
        (let (path, st1) = applyToState newMixEffect newUpstreamKeyer this st
         in (Path path, st1)))\<rparr>"

text \<open>
  The handlers that the constructor registers on the socket. An \<open>emit\<close> is recorded in
  \<open>emitted\<close>; what the listeners of the client do is outside the model.
\<close>

datatype 'x SocketEvent =
    ReceivedStateChange "'x ReceivedCommand"
  | CommandAcknowledged int
  | CommandTimeout int
  | SocketError string
  | SocketConnect
  | SocketDisconnect

definition onSocketEvent :: "string list \<Rightarrow> 'x SocketEvent \<Rightarrow> 'x Atem \<Rightarrow> 'x Atem option" where
  "onSocketEvent dataTransferCommands ev a =
     (case ev of
        ReceivedStateChange command \<Rightarrow>
          Some (mutateState dataTransferCommands command
                  (a\<lparr>emitted := emitted a @ [EmitReceivedCommand command]\<rparr>))
      | CommandAcknowledged trackingId \<Rightarrow> resolveCommand trackingId a
      | CommandTimeout trackingId \<Rightarrow> rejectCommand trackingId a
      | SocketError e \<Rightarrow> Some (a\<lparr>emitted := emitted a @ [EmitError e]\<rparr>)
      | SocketConnect \<Rightarrow> Some (a\<lparr>emitted := emitted a @ [EmitConnected]\<rparr>)
      | SocketDisconnect \<Rightarrow> Some (a\<lparr>emitted := emitted a @ [EmitDisconnected]\<rparr>))"

fun onSocketEvents :: "string list \<Rightarrow> 'x SocketEvent list \<Rightarrow> 'x Atem \<Rightarrow> 'x Atem option" where
  "onSocketEvents dataTransferCommands [] a = Some a"
| "onSocketEvents dataTransferCommands (ev # evs) a =
     (case onSocketEvent dataTransferCommands ev a of
        None \<Rightarrow> None
      | Some a1 \<Rightarrow> onSocketEvents dataTransferCommands evs a1)"

text \<open>
  \<open>setSuperSourceProperties\<close>. \<open>V8_0\<close> is \<open>Enums.ProtocolVersion.V8_0\<close> (not among the
  sources): a parameter. \<open>newCommand\<close> is the \<open>new\<close> of a command class followed by the
  assignments and \<open>updateProps\<close> that fill it in. The default \<open>ssrcId = 0\<close> of the source
  is a caller that passes 0.
\<close>

definition newCommand :: "Command \<Rightarrow> 'x Atem \<Rightarrow> ref \<times> 'x Atem" where
  "newCommand b a =
     (nextRef a,
      a\<lparr>nextRef := nextRef a + 1,
        heap := (heap a)(nextRef a := \<lparr>body = b, resolve = None, reject = None\<rparr>)\<rparr>)"

definition setSuperSourceProperties ::
  "int \<Rightarrow> string option \<Rightarrow> props \<Rightarrow> int \<Rightarrow> 'x Atem \<Rightarrow> promise \<times> 'x Atem" where
  "setSuperSourceProperties V8_0 sendFailure newProps ssrcId a =
     (if apiVersion (info (state a)) \<ge> V8_0 then
        (let (command, a1) = newCommand (SuperSourcePropertiesV8Command ssrcId newProps) a
         in sendCommand sendFailure command a1)
      else
        (let (command, a1) = newCommand (SuperSourcePropertiesCommand newProps) a
         in sendCommand sendFailure command a1))"

section \<open>Example values\<close>

text \<open>Concrete inputs at which the theorems below are instantiated.\<close>

definition exampleSettings :: UpstreamKeyerDVESettings where
  "exampleSettings =
     \<lparr>sizeX = 1000, sizeY = 4294967295, positionX = - 1000000, positionY = 7,
      rotation = - 332230, borderEnabled = True, shadowEnabled = False, borderBevel = 2,
      borderOuterWidth = 1600, borderInnerWidth = 3, borderOuterSoftness = 100,
      borderInnerSoftness = 0, borderBevelSoftness = 50, borderBevelPosition = 1,
      borderOpacity = 99, borderHue = 3600, borderSaturation = 1000, borderLuma = 500,
      lightSourceDirection = 3599, lightSourceAltitude = 10, maskEnabled = True,
      maskTop = 38000, maskBottom = 1, maskLeft = 52000, maskRight = 2, rate = 250\<rparr>"

definition exampleRaw :: Buffer where
  "exampleRaw =
     [7, 2, 0, 0,  0, 0, 3, 232,  255, 255, 255, 255,  128, 0, 0, 0,  0, 0, 0, 7,
      127, 255, 255, 255,  2, 255, 1, 0,  255, 255, 0, 3,  200, 100, 101, 50, 0, 0,
      14, 17, 3, 232, 1, 244,  14, 16, 10, 1,  148, 113, 0, 1, 203, 32, 0, 2,  255, 0, 0, 0]"

definition freshMixEffect :: "int \<Rightarrow> unit MixEffect" where
  "freshMixEffect index = \<lparr>upstreamKeyers = Map.empty, mixEffectOther = ()\<rparr>"

definition otherSettings :: UpstreamKeyerDVESettings where
  "otherSettings = exampleSettings\<lparr>rate := 25, rotation := 0\<rparr>"

definition freshUpstreamKeyer :: "int \<Rightarrow> unit UpstreamKeyer" where
  "freshUpstreamKeyer index = \<lparr>dveSettings = otherSettings, keyerOther = ()\<rparr>"

definition exampleState :: "unit AtemState" where
  "exampleState =
     \<lparr>video = \<lparr>ME = [0 \<mapsto> \<lparr>upstreamKeyers = [0 \<mapsto> freshUpstreamKeyer 0], mixEffectOther = ()\<rparr>,
                      2 \<mapsto> \<lparr>upstreamKeyers = [0 \<mapsto> freshUpstreamKeyer 0], mixEffectOther = ()\<rparr>],
               videoOther = ()\<rparr>,
      info = \<lparr>apiVersion = 131094\<rparr>,
      stateOther = ()\<rparr>"

definition exampleUpdate :: MixEffectKeyDVEUpdateCommand where
  "exampleUpdate = \<lparr>mixEffect = 2, upstreamKeyerId = 1, properties = exampleSettings\<rparr>"

definition exampleAtem :: "unit Atem" where
  "exampleAtem =
     \<lparr>state = exampleState,
      socket = \<lparr>session = Idle, localSequence = 0, trackingCounter = 0, outbox = []\<rparr>,
      sentQueue = Map.empty,
      heap = (\<lambda>r. \<lparr>body = OtherCommand [], resolve = None, reject = None\<rparr>),
      nextRef = 0,
      promiseCalls = [],
      nextPromise = 0,
      emitted = [],
      handledByDataTransferManager = []\<rparr>"

definition pendingAtem :: "unit Atem" where
  "pendingAtem = snd (sendCommand None 7 exampleAtem)"




section \<open>The codec\<close>

subsection \<open>Bytes and big-endian values\<close>

lemma be32_decompose:
  "(v::int) div 16777216 * 16777216 + v div 65536 mod 256 * 65536
     + v div 256 mod 256 * 256 + v mod 256 = v"
proof -
  define w1 where "w1 = v div 256"
  define w2 where "w2 = w1 div 256"
  define w3 where "w3 = w2 div 256"
  have e1: "v = w1 * 256 + v mod 256" unfolding w1_def by simp
  have e2: "w1 = w2 * 256 + w1 mod 256" unfolding w2_def by simp
  have e3: "w2 = w3 * 256 + w2 mod 256" unfolding w3_def by simp
  have d2: "v div 65536 = w2"
    using zdiv_zmult2_eq [of 256 v 256] by (simp add: w2_def w1_def)
  have d3: "v div 16777216 = w3"
    using zdiv_zmult2_eq [of 256 v 65536] by (simp add: w3_def d2)
  have "w3 * 16777216 + w2 mod 256 * 65536 + w1 mod 256 * 256 + v mod 256 = v"
    using e1 e2 e3 by linarith
  then show ?thesis unfolding d2 d3 w1_def .
qed

lemma uint_byte: "uint (byte v) = v mod 256"
  by (simp add: byte_def uint_word_of_int take_bit_eq_mod)

lemma u8_rt: "0 \<le> v \<Longrightarrow> v \<le> 255 \<Longrightarrow> uint (byte v) = v"
  by (simp add: uint_byte)

lemma s8_rt: "- 128 \<le> v \<Longrightarrow> v \<le> 127 \<Longrightarrow> sint (byte v) = v"
  by (simp add: byte_def sint_sbintrunc' signed_take_bit_int_eq_self)

lemma u16_rt:
  "0 \<le> v \<Longrightarrow> v \<le> 65535 \<Longrightarrow> uint (byte (v div 256)) * 256 + uint (byte v) = v"
  by (simp add: uint_byte)

lemma u32_rt:
  assumes "0 \<le> v" "v \<le> 4294967295"
  shows "uint (byte (v div 16777216)) * 16777216 + uint (byte (v div 65536)) * 65536
           + uint (byte (v div 256)) * 256 + uint (byte v) = v"
proof -
  have "0 \<le> v div 16777216" "v div 16777216 \<le> 255"
    using assms by simp_all
  then have "uint (byte (v div 16777216)) = v div 16777216"
    by (rule u8_rt)
  then show ?thesis
    using be32_decompose [of v] by (simp only: uint_byte)
qed

lemma s32_rt:
  assumes "- 2147483648 \<le> v" "v \<le> 2147483647"
  shows "sint (byte (v div 16777216)) * 16777216 + uint (byte (v div 65536)) * 65536
           + uint (byte (v div 256)) * 256 + uint (byte v) = v"
proof -
  have "- 128 \<le> v div 16777216" "v div 16777216 \<le> 127"
    using assms by simp_all
  then have "sint (byte (v div 16777216)) = v div 16777216"
    by (rule s8_rt)
  then show ?thesis
    using be32_decompose [of v] by (simp only: uint_byte)
qed

text \<open>
  The same facts with the range of the field as a premise of its own, which the simplifier
  discharges from the hypotheses of a command in range.
\<close>

lemma u8_inRange:
  "inRange lo hi v \<Longrightarrow> 0 \<le> lo \<Longrightarrow> hi \<le> 255 \<Longrightarrow> uint (byte v) = v"
  by (rule u8_rt) (simp_all add: inRange_def)

lemma s8_inRange:
  "inRange lo hi v \<Longrightarrow> - 128 \<le> lo \<Longrightarrow> hi \<le> 127 \<Longrightarrow> sint (byte v) = v"
  by (rule s8_rt) (simp_all add: inRange_def)

lemma u16_inRange:
  "inRange lo hi v \<Longrightarrow> 0 \<le> lo \<Longrightarrow> hi \<le> 65535 \<Longrightarrow>
     uint (byte (v div 256)) * 256 + uint (byte v) = v"
  by (rule u16_rt) (simp_all add: inRange_def)

lemma u32_inRange:
  "inRange lo hi v \<Longrightarrow> 0 \<le> lo \<Longrightarrow> hi \<le> 4294967295 \<Longrightarrow>
     uint (byte (v div 16777216)) * 16777216 + uint (byte (v div 65536)) * 65536
       + uint (byte (v div 256)) * 256 + uint (byte v) = v"
  by (rule u32_rt) (simp_all add: inRange_def)

lemma s32_inRange:
  "inRange lo hi v \<Longrightarrow> - 2147483648 \<le> lo \<Longrightarrow> hi \<le> 2147483647 \<Longrightarrow>
     sint (byte (v div 16777216)) * 16777216 + uint (byte (v div 65536)) * 65536
       + uint (byte (v div 256)) * 256 + uint (byte v) = v"
  by (rule s32_rt) (simp_all add: inRange_def)

subsection \<open>The writers succeed on values in range\<close>

lemma writeUInt8_ok:
  "inRange lo hi v \<Longrightarrow> 0 \<le> lo \<Longrightarrow> hi \<le> 255 \<Longrightarrow> off < length buf \<Longrightarrow>
   writeUInt8 v off buf = Some (buf[off := byte v])"
  by (simp add: writeUInt8_def inRange_def)

lemma writeUInt16BE_ok:
  "inRange lo hi v \<Longrightarrow> 0 \<le> lo \<Longrightarrow> hi \<le> 65535 \<Longrightarrow> off + 1 < length buf \<Longrightarrow>
   writeUInt16BE v off buf = Some (buf[off := byte (v div 256), off + 1 := byte v])"
  by (simp add: writeUInt16BE_def inRange_def)

lemma writeUInt32BE_ok:
  "inRange lo hi v \<Longrightarrow> 0 \<le> lo \<Longrightarrow> hi \<le> 4294967295 \<Longrightarrow> off + 3 < length buf \<Longrightarrow>
   writeUInt32BE v off buf =
     Some (buf[off := byte (v div 16777216), off + 1 := byte (v div 65536),
               off + 2 := byte (v div 256), off + 3 := byte v])"
  by (simp add: writeUInt32BE_def inRange_def)

lemma writeInt32BE_ok:
  "inRange lo hi v \<Longrightarrow> - 2147483648 \<le> lo \<Longrightarrow> hi \<le> 2147483647 \<Longrightarrow>
   off + 3 < length buf \<Longrightarrow>
   writeInt32BE v off buf =
     Some (buf[off := byte (v div 16777216), off + 1 := byte (v div 65536),
               off + 2 := byte (v div 256), off + 3 := byte v])"
  by (simp add: writeInt32BE_def inRange_def)

lemma alloc_64:
  "alloc 64 =
     [0,0,0,0,0,0,0,0,0,0,0,0,0,0,0,0,0,0,0,0,0,0,0,0,0,0,0,0,0,0,0,0,
      0,0,0,0,0,0,0,0,0,0,0,0,0,0,0,0,0,0,0,0,0,0,0,0,0,0,0,0,0,0,0,0]"
  by (simp add: alloc_def numeral_eq_Suc)

lemma list_update_Cons_numeral: "(x # xs)[numeral k := y] = x # xs[pred_numeral k := y]"
  by (simp add: numeral_eq_Suc)

lemma serialize_wire:
  assumes "validDVESettings BorderBevel (setProperties c)"
    and "inRange 0 3 (setMixEffect c)" and "inRange 0 3 (setUpstreamKeyerId c)"
    and "inRange 0 (2 ^ 32 - 1) (flag c)"
  shows "serialize c = Some (wire c)"
  using assms unfolding validDVESettings_def
  apply (elim conjE)
  apply (simp add: serialize_def alloc_64 setByte_def
     writeUInt8_ok writeUInt16BE_ok writeUInt32BE_ok writeInt32BE_ok
     list_update_Cons_numeral wire_def split del: if_split)
  done

subsection \<open>The reader on long and short buffers\<close>

lemma deserialize_long:
  "57 \<le> length buf \<Longrightarrow> deserialize BorderBevel buf = decoded BorderBevel buf"
  by (auto simp: deserialize_def decoded_def byteAt_def readUInt8_def readInt8_def
      readUInt16BE_def readUInt32BE_def readInt32BE_def parseEnum_def)

lemma deserialize_short:
  "length buf < 57 \<Longrightarrow> deserialize BorderBevel buf = None"
  by (simp add: deserialize_def byteAt_def readUInt8_def readInt8_def
      readUInt16BE_def readUInt32BE_def readInt32BE_def parseEnum_def Option.bind_eq_None_conv)

lemma parseNumberBetween_inRange: "inRange lo hi v \<Longrightarrow> parseNumberBetween v lo hi = v"
  by (simp add: inRange_def parseNumberBetween_def)

lemma decoded_wire:
  assumes "validDVESettings BorderBevel (setProperties c)"
    and "inRange 0 3 (setMixEffect c)" and "inRange 0 3 (setUpstreamKeyerId c)"
  shows "decoded BorderBevel (drop 4 (wire c)) =
       Some \<lparr>mixEffect = setMixEffect c, upstreamKeyerId = setUpstreamKeyerId c,
             properties = setProperties c\<rparr>"
  using assms unfolding validDVESettings_def
  apply (elim conjE)
  apply (simp add: decoded_def wire_def u8_def s8_def u16be_def u32be_def s32be_def
      u8_inRange s8_inRange u16_inRange u32_inRange s32_inRange parseNumberBetween_inRange)
  done

lemma length_wire: "length (wire c) = 64"
  by (simp add: wire_def)

text \<open>
  C1. Round trip of the DVE keyer command pair. For a command whose mix effect and keyer
  are in 0..3, whose properties lie in the ranges that \<open>deserialize\<close> documents (and whose
  bevel is a member of the enumeration), and whose flag word is a 32-bit mask,
  \<open>serialize\<close> returns a buffer, and \<open>deserialize\<close> of that buffer from offset 4 onward
  recovers the same mix effect, keyer and properties.
\<close>

theorem dve_roundtrip:
  assumes "validDVESettings BorderBevel (setProperties c)"
    and "inRange 0 3 (setMixEffect c)" and "inRange 0 3 (setUpstreamKeyerId c)"
    and "inRange 0 (2 ^ 32 - 1) (flag c)"
  shows "\<exists>buffer. serialize c = Some buffer \<and>
           deserialize BorderBevel (drop 4 buffer) =
             Some \<lparr>mixEffect = setMixEffect c, upstreamKeyerId = setUpstreamKeyerId c,
                   properties = setProperties c\<rparr>"
proof -
  have "serialize c = Some (wire c)"
    using assms by (rule serialize_wire)
  moreover have "57 \<le> length (drop 4 (wire c))"
    by (simp add: length_wire)
  then have "deserialize BorderBevel (drop 4 (wire c)) = decoded BorderBevel (drop 4 (wire c))"
    by (rule deserialize_long)
  ultimately show ?thesis
    using decoded_wire [OF assms(1-3)] by simp
qed

theorem dve_roundtrip_witness:
  "validDVESettings [0, 1, 2, 3] exampleSettings \<and>
   (\<exists>buffer.
      serialize \<lparr>flag = 5, setMixEffect = 1, setUpstreamKeyerId = 3,
                 setProperties = exampleSettings\<rparr> = Some buffer \<and>
      deserialize [0, 1, 2, 3] (drop 4 buffer) =
        Some \<lparr>mixEffect = 1, upstreamKeyerId = 3, properties = exampleSettings\<rparr>)"
proof -
  have v: "validDVESettings [0, 1, 2, 3] exampleSettings"
    by (simp add: validDVESettings_def inRange_def exampleSettings_def)
  show ?thesis
    using v dve_roundtrip [of "[0, 1, 2, 3]"
        "\<lparr>flag = 5, setMixEffect = 1, setUpstreamKeyerId = 3, setProperties = exampleSettings\<rparr>"]
    by (simp add: inRange_def)
qed

subsection \<open>Decoding out-of-range values\<close>


lemma deserialize_None_iff:
  "deserialize BorderBevel buf = None \<longleftrightarrow> length buf < 57 \<or> u8 buf 26 \<notin> set BorderBevel"
proof (cases "length buf < 57")
  case True
  then show ?thesis by (simp add: deserialize_short)
next
  case False
  then have "57 \<le> length buf" by simp
  then show ?thesis by (simp add: deserialize_long decoded_def)
qed




subsection \<open>Boolean flags\<close>

lemma uint_eq_one_iff: "uint (w :: 8 word) = 1 \<longleftrightarrow> w = 1"
  by (metis uint_1 word_uint_eq_iff)

text \<open>
  C10. The three boolean flags are decoded by equality with 1: in whatever command
  \<open>deserialize\<close> yields, each flag is true exactly when its byte is 1. Whether it yields a
  command depends on the length of the buffer and on the bevel byte only, so no value of
  a flag byte is rejected.
\<close>

theorem flags_strict_equality:
  "(deserialize BorderBevel buf = None \<longleftrightarrow>
      length buf < 57 \<or> u8 buf 26 \<notin> set BorderBevel) \<and>
   (\<forall>c. deserialize BorderBevel buf = Some c \<longrightarrow>
      (borderEnabled (properties c) \<longleftrightarrow> buf ! 24 = 1) \<and>
      (shadowEnabled (properties c) \<longleftrightarrow> buf ! 25 = 1) \<and>
      (maskEnabled (properties c) \<longleftrightarrow> buf ! 47 = 1))"
proof (intro conjI allI impI)
  show "deserialize BorderBevel buf = None \<longleftrightarrow>
      length buf < 57 \<or> u8 buf 26 \<notin> set BorderBevel"
    by (rule deserialize_None_iff)
next
  fix c
  assume c: "deserialize BorderBevel buf = Some c"
  then have "\<not> length buf < 57"
    by (auto simp: deserialize_short)
  then have "decoded BorderBevel buf = Some c"
    using c by (simp add: deserialize_long)
  then have p: "borderEnabled (properties c) = (u8 buf 24 = 1)"
    "shadowEnabled (properties c) = (u8 buf 25 = 1)"
    "maskEnabled (properties c) = (u8 buf 47 = 1)"
    by (auto simp: decoded_def split: if_splits)
  show "borderEnabled (properties c) \<longleftrightarrow> buf ! 24 = 1"
    "shadowEnabled (properties c) \<longleftrightarrow> buf ! 25 = 1"
    "maskEnabled (properties c) \<longleftrightarrow> buf ! 47 = 1"
    by (simp_all add: p u8_def uint_eq_one_iff)
qed

theorem flags_strict_equality_witness:
  "exampleRaw ! 24 = 2 \<and> exampleRaw ! 25 = 255 \<and> exampleRaw ! 47 = 1 \<and>
   (\<exists>c. deserialize [0, 1, 2, 3] exampleRaw = Some c \<and>
      \<not> borderEnabled (properties c) \<and> \<not> shadowEnabled (properties c) \<and>
      maskEnabled (properties c))"
proof -
  have raw: "exampleRaw ! 24 = 2" "exampleRaw ! 25 = 255" "exampleRaw ! 47 = 1"
    by (simp_all add: exampleRaw_def)
  have "length exampleRaw = 60" "u8 exampleRaw 26 = 1"
    by (simp_all add: exampleRaw_def u8_def)
  with flags_strict_equality [of "[0, 1, 2, 3]" exampleRaw]
  obtain c where c: "deserialize [0, 1, 2, 3] exampleRaw = Some c"
    by auto
  with flags_strict_equality [of "[0, 1, 2, 3]" exampleRaw]
  have "\<not> borderEnabled (properties c)" "\<not> shadowEnabled (properties c)"
    "maskEnabled (properties c)"
    by (simp_all add: raw)
  with c raw show ?thesis by blast
qed

section \<open>The state synchronizer\<close>

lemma applyToState_idem:
  "applyToState nm nk c (snd (applyToState nm nk c s)) = applyToState nm nk c s"
  by (simp add: applyToState_def getMe_def getUpstreamKeyer_def Let_def
      split: option.splits)

lemma applyToState_path:
  "fst (applyToState nm nk c s) =
     ''video.ME.'' @ numberToString (mixEffect c) @ ''.upstreamKeyers.''
       @ numberToString (upstreamKeyerId c) @ ''.dveSettings''"
  by (simp add: applyToState_def Let_def split: prod.splits)

lemma applyToState_state:
  "snd (applyToState nm nk c s) =
     (let me0 = (case ME (video s) (mixEffect c) of Some me \<Rightarrow> me | None \<Rightarrow> nm (mixEffect c));
          usk0 = (case upstreamKeyers me0 (upstreamKeyerId c) of
                    Some u \<Rightarrow> u | None \<Rightarrow> nk (upstreamKeyerId c))
      in s\<lparr>video := (video s)\<lparr>ME := (ME (video s))(mixEffect c \<mapsto>
           me0\<lparr>upstreamKeyers := (upstreamKeyers me0)(upstreamKeyerId c \<mapsto>
             usk0\<lparr>dveSettings := properties c\<rparr>)\<rparr>)\<rparr>\<rparr>)"
  by (simp add: applyToState_def getMe_def getUpstreamKeyer_def Let_def
      split: option.splits)

text \<open>
  C3. Idempotence of the DVE notifier: applying \<open>applyToState\<close> to the state that a first
  application produced gives the same state and returns the same change path.
\<close>

theorem applyToState_idempotent:
  "snd (applyToState nm nk c (snd (applyToState nm nk c s))) = snd (applyToState nm nk c s) \<and>
   fst (applyToState nm nk c (snd (applyToState nm nk c s))) = fst (applyToState nm nk c s)"
  by (simp add: applyToState_idem)

lemma mutateState_emits:
  assumes "commandApplyToState command = Some apply" and "apply (state a) = (changePaths, st)"
  shows "emitted (mutateState dt command a) =
           emitted a @ map (EmitStateChanged st)
             (case changePaths of Paths ps \<Rightarrow> ps | Path p \<Rightarrow> [p])"
    and "state (mutateState dt command a) = st"
  using assms by (simp_all add: mutateState_def Let_def)

text \<open>
  C8. Frame property of the DVE notifier with mix effect \<open>m\<close> and keyer \<open>k\<close>. The path
  returned is the single path video.ME.m.upstreamKeyers.k.dveSettings. Outside the video
  state nothing changes; every mix effect other than \<open>m\<close> is unchanged; in mix effect \<open>m\<close>
  every keyer other than \<open>k\<close> and everything else it holds is unchanged; keyer \<open>k\<close> changes
  in its \<open>dveSettings\<close> only, which become the properties of the command. Where the mix
  effect or the keyer has not been seen before, the node spoken of is the fresh one that
  \<open>getMe\<close> or \<open>getUpstreamKeyer\<close> creates. \<open>_mutateState\<close> installs that state and emits one
  \<open>stateChanged\<close> event, for that path.
\<close>

theorem dve_update_frame:
  "(let m = mixEffect c; k = upstreamKeyerId c;
        me0 = (case ME (video (state a)) m of Some me \<Rightarrow> me | None \<Rightarrow> nm m);
        usk0 = (case upstreamKeyers me0 k of Some u \<Rightarrow> u | None \<Rightarrow> nk k);
        (path, s') = applyToState nm nk c (state a);
        a' = mutateState dt (receivedDVEUpdate nm nk c) a
    in path = ''video.ME.'' @ numberToString m @ ''.upstreamKeyers.'' @ numberToString k
                @ ''.dveSettings'' \<and>
       info s' = info (state a) \<and> stateOther s' = stateOther (state a) \<and>
       videoOther (video s') = videoOther (video (state a)) \<and>
       (\<forall>m'. m' \<noteq> m \<longrightarrow> ME (video s') m' = ME (video (state a)) m') \<and>
       (\<exists>me'. ME (video s') m = Some me' \<and> mixEffectOther me' = mixEffectOther me0 \<and>
          (\<forall>k'. k' \<noteq> k \<longrightarrow> upstreamKeyers me' k' = upstreamKeyers me0 k') \<and>
          upstreamKeyers me' k = Some (usk0\<lparr>dveSettings := properties c\<rparr>)) \<and>
       state a' = s' \<and>
       emitted a' = emitted a @ [EmitStateChanged s' path])"
proof -
  obtain path s' where ap: "applyToState nm nk c (state a) = (path, s')"
    by (cases "applyToState nm nk c (state a)")
  have p: "path = ''video.ME.'' @ numberToString (mixEffect c) @ ''.upstreamKeyers.''
             @ numberToString (upstreamKeyerId c) @ ''.dveSettings''"
    using applyToState_path [of nm nk c "state a"] ap by simp
  have s: "s' = snd (applyToState nm nk c (state a))"
    using ap by simp
  have r: "commandApplyToState (receivedDVEUpdate nm nk c) =
             Some (\<lambda>st. (let (path, st1) = applyToState nm nk c st in (Path path, st1)))"
    by (simp add: receivedDVEUpdate_def)
  have e: "(let (path, st1) = applyToState nm nk c (state a) in (Path path, st1)) = (Path path, s')"
    using ap by simp
  note m = mutateState_emits [OF r e, of dt]
  show ?thesis
    unfolding Let_def ap prod.case m
    by (simp add: p s applyToState_state Let_def)
qed

theorem dve_update_frame_witness:
  "fst (applyToState freshMixEffect freshUpstreamKeyer exampleUpdate exampleState) =
     ''video.ME.2.upstreamKeyers.1.dveSettings'' \<and>
   ME (video (snd (applyToState freshMixEffect freshUpstreamKeyer exampleUpdate exampleState))) 0
     = ME (video exampleState) 0 \<and>
   (\<exists>me'. ME (video (snd (applyToState freshMixEffect freshUpstreamKeyer exampleUpdate
                exampleState))) 2 = Some me' \<and>
      upstreamKeyers me' 0 = Some (freshUpstreamKeyer 0) \<and>
      upstreamKeyers me' 1 = Some \<lparr>dveSettings = exampleSettings, keyerOther = ()\<rparr>) \<and>
   emitted (mutateState [] (receivedDVEUpdate freshMixEffect freshUpstreamKeyer exampleUpdate)
              exampleAtem) =
     [EmitStateChanged
        (snd (applyToState freshMixEffect freshUpstreamKeyer exampleUpdate exampleState))
        ''video.ME.2.upstreamKeyers.1.dveSettings'']"
proof -
  obtain path s' where
    ap: "applyToState freshMixEffect freshUpstreamKeyer exampleUpdate exampleState = (path, s')"
    by (cases "applyToState freshMixEffect freshUpstreamKeyer exampleUpdate exampleState")
  have st: "state exampleAtem = exampleState" "emitted exampleAtem = []"
    by (simp_all add: exampleAtem_def)
  have ex: "mixEffect exampleUpdate = 2" "upstreamKeyerId exampleUpdate = 1"
    "properties exampleUpdate = exampleSettings"
    "ME (video exampleState) 2 =
       Some \<lparr>upstreamKeyers = [0 \<mapsto> freshUpstreamKeyer 0], mixEffectOther = ()\<rparr>"
    by (simp_all add: exampleUpdate_def exampleState_def)
  have n: "numberToString 2 = ''2''" "numberToString 1 = ''1''"
    by (simp_all add: numberToString_def digits.simps)
  show ?thesis
    using dve_update_frame [where c = exampleUpdate and a = exampleAtem
        and nm = freshMixEffect and nk = freshUpstreamKeyer and dt = "[]"]
    unfolding Let_def st ap prod.case ex
    by (auto simp: n freshUpstreamKeyer_def)
qed

section \<open>The acknowledgment tracker\<close>

lemma resolveCommand_unknown: "sentQueue a t = None \<Longrightarrow> resolveCommand t a = Some a"
  by (simp add: resolveCommand_def)

lemma rejectCommand_unknown: "sentQueue a t = None \<Longrightarrow> rejectCommand t a = Some a"
  by (simp add: rejectCommand_def)

text \<open>
  C4. Settlement by the tracker is exactly once. For an identifier that is not in the
  sent queue (unknown, or settled before) \<open>_resolveCommand\<close> and \<open>_rejectCommand\<close> leave the
  whole client unchanged. For an identifier under which a command \<open>r\<close> is registered,
  \<open>_resolveCommand\<close> returns, having made one call, \<open>resolve\<close> of the promise \<open>p\<close> stored on
  \<open>r\<close> with \<open>r\<close> itself, and having removed the identifier and nothing else from the sent
  queue; \<open>_rejectCommand\<close> does the same with \<open>reject\<close>. After either, the identifier is
  unknown, so a further call of either with it changes nothing.
\<close>

theorem settlement_exactly_once:
  "(sentQueue a t = None \<longrightarrow> resolveCommand t a = Some a \<and> rejectCommand t a = Some a) \<and>
   (\<forall>r p. sentQueue a t = Some r \<and> resolve (heap a r) = Some p \<longrightarrow>
      (\<exists>a'. resolveCommand t a = Some a' \<and>
         a' = a\<lparr>promiseCalls := promiseCalls a @ [(p, Resolve, CommandValue r)],
                sentQueue := (sentQueue a)(t := None)\<rparr> \<and>
         sentQueue a' t = None \<and> (\<forall>u. u \<noteq> t \<longrightarrow> sentQueue a' u = sentQueue a u) \<and>
         resolveCommand t a' = Some a' \<and> rejectCommand t a' = Some a')) \<and>
   (\<forall>r p. sentQueue a t = Some r \<and> reject (heap a r) = Some p \<longrightarrow>
      (\<exists>a'. rejectCommand t a = Some a' \<and>
         a' = a\<lparr>promiseCalls := promiseCalls a @ [(p, Reject, CommandValue r)],
                sentQueue := (sentQueue a)(t := None)\<rparr> \<and>
         sentQueue a' t = None \<and> (\<forall>u. u \<noteq> t \<longrightarrow> sentQueue a' u = sentQueue a u) \<and>
         resolveCommand t a' = Some a' \<and> rejectCommand t a' = Some a'))"
proof (intro conjI allI impI)
  assume "sentQueue a t = None"
  then show "resolveCommand t a = Some a" "rejectCommand t a = Some a"
    by (simp_all add: resolveCommand_unknown rejectCommand_unknown)
next
  fix r p
  assume h: "sentQueue a t = Some r \<and> resolve (heap a r) = Some p"
  let ?a' = "a\<lparr>promiseCalls := promiseCalls a @ [(p, Resolve, CommandValue r)],
                sentQueue := (sentQueue a)(t := None)\<rparr>"
  have "resolveCommand t a = Some ?a'"
    using h by (simp add: resolveCommand_def)
  moreover have gone: "sentQueue ?a' t = None" by simp
  moreover have "\<forall>u. u \<noteq> t \<longrightarrow> sentQueue ?a' u = sentQueue a u" by simp
  moreover have "resolveCommand t ?a' = Some ?a'" "rejectCommand t ?a' = Some ?a'"
    using gone by (rule resolveCommand_unknown, rule rejectCommand_unknown)
  ultimately show "\<exists>a'. resolveCommand t a = Some a' \<and>
         a' = a\<lparr>promiseCalls := promiseCalls a @ [(p, Resolve, CommandValue r)],
                sentQueue := (sentQueue a)(t := None)\<rparr> \<and>
         sentQueue a' t = None \<and> (\<forall>u. u \<noteq> t \<longrightarrow> sentQueue a' u = sentQueue a u) \<and>
         resolveCommand t a' = Some a' \<and> rejectCommand t a' = Some a'"
    by blast
next
  fix r p
  assume h: "sentQueue a t = Some r \<and> reject (heap a r) = Some p"
  let ?a' = "a\<lparr>promiseCalls := promiseCalls a @ [(p, Reject, CommandValue r)],
                sentQueue := (sentQueue a)(t := None)\<rparr>"
  have "rejectCommand t a = Some ?a'"
    using h by (simp add: rejectCommand_def)
  moreover have gone: "sentQueue ?a' t = None" by simp
  moreover have "\<forall>u. u \<noteq> t \<longrightarrow> sentQueue ?a' u = sentQueue a u" by simp
  moreover have "resolveCommand t ?a' = Some ?a'" "rejectCommand t ?a' = Some ?a'"
    using gone by (rule resolveCommand_unknown, rule rejectCommand_unknown)
  ultimately show "\<exists>a'. rejectCommand t a = Some a' \<and>
         a' = a\<lparr>promiseCalls := promiseCalls a @ [(p, Reject, CommandValue r)],
                sentQueue := (sentQueue a)(t := None)\<rparr> \<and>
         sentQueue a' t = None \<and> (\<forall>u. u \<noteq> t \<longrightarrow> sentQueue a' u = sentQueue a u) \<and>
         resolveCommand t a' = Some a' \<and> rejectCommand t a' = Some a'"
    by blast
qed

lemma pendingAtem_eq:
  "pendingAtem = exampleAtem
     \<lparr>socket := \<lparr>session = Idle, localSequence = 0, trackingCounter = 1, outbox = [(7, 1)]\<rparr>,
      sentQueue := [1 \<mapsto> 7],
      nextPromise := 1,
      heap := (heap exampleAtem)(7 := \<lparr>body = OtherCommand [], resolve = Some 0, reject = Some 0\<rparr>)\<rparr>"
  by (simp add: pendingAtem_def sendCommand_def nextPacketId_def socketSendCommand_def
      exampleAtem_def Let_def)

theorem settlement_exactly_once_witness:
  "sentQueue pendingAtem 1 = Some 7 \<and> resolve (heap pendingAtem 7) = Some 0 \<and>
   reject (heap pendingAtem 7) = Some 0 \<and> sentQueue pendingAtem 2 = None \<and>
   resolveCommand 2 pendingAtem = Some pendingAtem \<and>
   rejectCommand 2 pendingAtem = Some pendingAtem \<and>
   resolveCommand 1 pendingAtem =
     Some (pendingAtem\<lparr>promiseCalls := [(0, Resolve, CommandValue 7)], sentQueue := Map.empty\<rparr>) \<and>
   rejectCommand 1 pendingAtem =
     Some (pendingAtem\<lparr>promiseCalls := [(0, Reject, CommandValue 7)], sentQueue := Map.empty\<rparr>) \<and>
   resolveCommand 1
      (pendingAtem\<lparr>promiseCalls := [(0, Resolve, CommandValue 7)], sentQueue := Map.empty\<rparr>)
     = Some (pendingAtem\<lparr>promiseCalls := [(0, Resolve, CommandValue 7)], sentQueue := Map.empty\<rparr>) \<and>
   rejectCommand 1
      (pendingAtem\<lparr>promiseCalls := [(0, Resolve, CommandValue 7)], sentQueue := Map.empty\<rparr>)
     = Some (pendingAtem\<lparr>promiseCalls := [(0, Resolve, CommandValue 7)], sentQueue := Map.empty\<rparr>)"
proof -
  have q: "sentQueue pendingAtem 1 = Some 7" "resolve (heap pendingAtem 7) = Some 0"
    "reject (heap pendingAtem 7) = Some 0" "sentQueue pendingAtem 2 = None"
    "promiseCalls pendingAtem = []" "(sentQueue pendingAtem)(1 := None) = Map.empty"
    by (simp_all add: pendingAtem_eq exampleAtem_def)
  show ?thesis
    using settlement_exactly_once [of pendingAtem 1] settlement_exactly_once [of pendingAtem 2]
    by (simp add: q)
qed

section \<open>Sending commands\<close>

lemma sendCommand_eq:
  "sendCommand f command a =
     (nextPromise a,
      a\<lparr>socket := (socket a)\<lparr>trackingCounter := trackingCounter (socket a) + 1,
                               outbox := outbox (socket a)
                                 @ [(command, trackingCounter (socket a) + 1)]\<rparr>,
        sentQueue := (sentQueue a)(trackingCounter (socket a) + 1 \<mapsto> command),
        nextPromise := nextPromise a + 1,
        heap := (heap a)(command := (heap a command)
                  \<lparr>resolve := Some (nextPromise a), reject := Some (nextPromise a)\<rparr>),
        promiseCalls := promiseCalls a
          @ (case f of None \<Rightarrow> [] | Some e \<Rightarrow> [(nextPromise a, Reject, ErrorValue e)])\<rparr>)"
  by (cases f) (simp_all add: sendCommand_def nextPacketId_def socketSendCommand_def Let_def)









text \<open>
  C5. The tracking identifier under which \<open>sendCommand\<close> registers a command is the next
  value of the socket's tracking counter, whatever the wire sequence counter \<open>n\<close> and the
  state \<open>st\<close> of the session are (also before a session exists); the command is handed to
  the socket under the same identifier, the wire sequence counter is not touched, and the
  next command gets the next identifier.
\<close>

theorem tracking_id_independent:
  "(let a0 = a\<lparr>socket := (socket a)\<lparr>localSequence := n, session := st\<rparr>\<rparr>;
        (p, a1) = sendCommand f command a0;
        (p', a2) = sendCommand f' command' a1
    in sentQueue a1 (trackingCounter (socket a) + 1) = Some command \<and>
       last (outbox (socket a1)) = (command, trackingCounter (socket a) + 1) \<and>
       localSequence (socket a1) = n \<and> session (socket a1) = st \<and>
       sentQueue a2 (trackingCounter (socket a) + 2) = Some command' \<and>
       last (outbox (socket a2)) = (command', trackingCounter (socket a) + 2))"
  by (simp add: sendCommand_eq Let_def)

section \<open>Disconnect\<close>

lemma onSocketEvent_disconnect:
  "onSocketEvent dt SocketDisconnect a = Some (a\<lparr>emitted := emitted a @ [EmitDisconnected]\<rparr>)"
  by (simp add: onSocketEvent_def)

lemma timeouts_reject_all:
  assumes "distinct ts"
    and "\<forall>t \<in> set ts. \<exists>r p. sentQueue a t = Some r \<and> reject (heap a r) = Some p"
  shows "\<exists>a'. onSocketEvents dt (map CommandTimeout ts) a = Some a' \<and>
           sentQueue a' = sentQueue a |` (- set ts) \<and>
           promiseCalls a' = promiseCalls a
             @ map (\<lambda>t. (the (reject (heap a (the (sentQueue a t)))), Reject,
                           CommandValue (the (sentQueue a t)))) ts \<and>
           heap a' = heap a \<and> emitted a' = emitted a"
  using assms
proof (induction ts arbitrary: a)
  case Nil
  then show ?case by simp
next
  case (Cons t ts)
  from Cons.prems obtain r p where
    r: "sentQueue a t = Some r" "reject (heap a r) = Some p"
    by auto
  define a1 where
    "a1 = a\<lparr>promiseCalls := promiseCalls a @ [(p, Reject, CommandValue r)],
            sentQueue := (sentQueue a)(t := None)\<rparr>"
  have step: "onSocketEvent dt (CommandTimeout t) a = Some a1"
    using r by (simp add: onSocketEvent_def rejectCommand_def a1_def)
  have same: "\<forall>u \<in> set ts. sentQueue a1 u = sentQueue a u"
    using Cons.prems(1) by (auto simp: a1_def)
  have h: "heap a1 = heap a" "emitted a1 = emitted a"
    by (simp_all add: a1_def)
  have "distinct ts" using Cons.prems(1) by simp
  moreover have "\<forall>u \<in> set ts. \<exists>r p. sentQueue a1 u = Some r \<and> reject (heap a1 r) = Some p"
    using Cons.prems(2) same h by simp
  ultimately obtain a' where
    a': "onSocketEvents dt (map CommandTimeout ts) a1 = Some a'"
      "sentQueue a' = sentQueue a1 |` (- set ts)"
      "promiseCalls a' = promiseCalls a1
         @ map (\<lambda>t. (the (reject (heap a1 (the (sentQueue a1 t)))), Reject,
                       CommandValue (the (sentQueue a1 t)))) ts"
      "heap a' = heap a1" "emitted a' = emitted a1"
    using Cons.IH [of a1] by blast
  have q: "sentQueue a1 |` (- set ts) = sentQueue a |` (- set (t # ts))"
    by (auto simp: a1_def restrict_map_def)
  have m: "map (\<lambda>t. (the (reject (heap a1 (the (sentQueue a1 t)))), Reject,
                       CommandValue (the (sentQueue a1 t)))) ts
         = map (\<lambda>t. (the (reject (heap a (the (sentQueue a t)))), Reject,
                       CommandValue (the (sentQueue a t)))) ts"
    using same h by simp
  have "promiseCalls a1 = promiseCalls a @ [(p, Reject, CommandValue r)]"
    by (simp add: a1_def)
  then show ?case
    using step a' q m h r by simp
qed

text \<open>
  C6, as amended. On the socket's \<open>disconnect\<close> the client only emits \<open>disconnected\<close>: the
  sent queue and the promises are unchanged, so the pending commands stay registered and
  unsettled. They are rejected when the socket reports \<open>CommandTimeout\<close> for their tracking
  identifiers: for a list \<open>ts\<close> of the outstanding identifiers, each once, each command is
  rejected once, with the command object itself, and no command remains registered.
\<close>

theorem disconnect_keeps_pending:
  assumes "distinct ts" and "set ts = dom (sentQueue a)"
    and "\<forall>t \<in> set ts. reject (heap a (the (sentQueue a t))) \<noteq> None"
  shows "onSocketEvent dt SocketDisconnect a =
           Some (a\<lparr>emitted := emitted a @ [EmitDisconnected]\<rparr>) \<and>
         (\<exists>a'. onSocketEvents dt (SocketDisconnect # map CommandTimeout ts) a = Some a' \<and>
            sentQueue a' = Map.empty \<and>
            promiseCalls a' = promiseCalls a
              @ map (\<lambda>t. (the (reject (heap a (the (sentQueue a t)))), Reject,
                            CommandValue (the (sentQueue a t)))) ts \<and>
            emitted a' = emitted a @ [EmitDisconnected])"
proof -
  let ?a0 = "a\<lparr>emitted := emitted a @ [EmitDisconnected]\<rparr>"
  have "\<forall>t \<in> set ts. \<exists>r p. sentQueue ?a0 t = Some r \<and> reject (heap ?a0 r) = Some p"
  proof
    fix t
    assume t: "t \<in> set ts"
    then obtain r where r: "sentQueue a t = Some r"
      using assms(2) by auto
    with assms(3) t obtain p where "reject (heap a r) = Some p"
      by force
    with r show "\<exists>r p. sentQueue ?a0 t = Some r \<and> reject (heap ?a0 r) = Some p"
      by simp
  qed
  from timeouts_reject_all [OF assms(1) this, of dt] obtain a' where
    a': "onSocketEvents dt (map CommandTimeout ts) ?a0 = Some a'"
      "sentQueue a' = sentQueue ?a0 |` (- set ts)"
      "promiseCalls a' = promiseCalls ?a0
         @ map (\<lambda>t. (the (reject (heap ?a0 (the (sentQueue ?a0 t)))), Reject,
                       CommandValue (the (sentQueue ?a0 t)))) ts"
      "emitted a' = emitted ?a0"
    by blast
  have "sentQueue ?a0 |` (- set ts) = Map.empty"
    using assms(2) by (auto simp: restrict_map_def)
  then show ?thesis
    using a' by (simp add: onSocketEvent_disconnect)
qed

theorem disconnect_keeps_pending_witness:
  "distinct [1 :: int] \<and> set [1] = dom (sentQueue pendingAtem) \<and>
   onSocketEvent [] SocketDisconnect pendingAtem =
     Some (pendingAtem\<lparr>emitted := [EmitDisconnected]\<rparr>) \<and>
   (\<exists>a'. onSocketEvents [] [SocketDisconnect, CommandTimeout 1] pendingAtem = Some a' \<and>
      sentQueue a' = Map.empty \<and> promiseCalls a' = [(0, Reject, CommandValue 7)])"
proof -
  have d: "set [1] = dom (sentQueue pendingAtem)"
    by (simp add: pendingAtem_eq exampleAtem_def)
  have r: "\<forall>t \<in> set [1]. reject (heap pendingAtem (the (sentQueue pendingAtem t))) \<noteq> None"
    by (simp add: pendingAtem_eq exampleAtem_def)
  have e: "emitted pendingAtem = []" "promiseCalls pendingAtem = []"
    "reject (heap pendingAtem 7) = Some 0" "sentQueue pendingAtem 1 = Some 7"
    by (simp_all add: pendingAtem_eq exampleAtem_def)
  show ?thesis
    using disconnect_keeps_pending [OF _ d r, of "[]"] d
    by (auto simp: e onSocketEvent_disconnect)
qed

text \<open>
  C6 as stated fails: with one command pending under tracking identifier 1, after the
  \<open>disconnect\<close> handler has run the command is still registered, no \<open>reject\<close> was called
  and its promise is pending.
\<close>

theorem disconnect_rejects_nothing:
  "onSocketEvent [] SocketDisconnect pendingAtem =
     Some (pendingAtem\<lparr>emitted := [EmitDisconnected]\<rparr>) \<and>
   sentQueue (pendingAtem\<lparr>emitted := [EmitDisconnected]\<rparr>) 1 = Some 7 \<and>
   promiseCalls (pendingAtem\<lparr>emitted := [EmitDisconnected]\<rparr>) = [] \<and>
   promiseState (promiseCalls (pendingAtem\<lparr>emitted := [EmitDisconnected]\<rparr>)) 0 = Pending"
  by (simp add: onSocketEvent_def pendingAtem_eq exampleAtem_def promiseState_def)

section \<open>Protocol version gating\<close>

text \<open>
  C7. \<open>setSuperSourceProperties\<close> hands one command to the socket and registers it: a
  \<open>SuperSourcePropertiesV8Command\<close> carrying \<open>ssrcId\<close> when the \<open>apiVersion\<close> of the
  mirrored state is at least \<open>V8_0\<close>, the legacy \<open>SuperSourcePropertiesCommand\<close> (which
  carries no \<open>ssrcId\<close>) otherwise.
\<close>

theorem superSource_version_gate:
  "(let (p, a') = setSuperSourceProperties V8_0 f newProps ssrcId a;
        (command, t) = last (outbox (socket a'))
    in sentQueue a' t = Some command \<and>
       body (heap a' command) =
         (if V8_0 \<le> apiVersion (info (state a))
          then SuperSourcePropertiesV8Command ssrcId newProps
          else SuperSourcePropertiesCommand newProps))"
  by (simp add: setSuperSourceProperties_def newCommand_def sendCommand_eq Let_def)

theorem superSource_version_gate_witness:
  "apiVersion (info (state exampleAtem)) = 131094 \<and>
   body (heap (snd (setSuperSourceProperties 131100 None [(''artFillSource'', 3)] 1 exampleAtem))
           (fst (last (outbox (socket
              (snd (setSuperSourceProperties 131100 None [(''artFillSource'', 3)] 1 exampleAtem)))))))
     = SuperSourcePropertiesCommand [(''artFillSource'', 3)] \<and>
   body (heap (snd (setSuperSourceProperties 131094 None [(''artFillSource'', 3)] 1 exampleAtem))
           (fst (last (outbox (socket
              (snd (setSuperSourceProperties 131094 None [(''artFillSource'', 3)] 1 exampleAtem)))))))
     = SuperSourcePropertiesV8Command 1 [(''artFillSource'', 3)]"
proof -
  have v: "apiVersion (info (state exampleAtem)) = 131094"
    by (simp add: exampleAtem_def exampleState_def)
  show ?thesis
    using superSource_version_gate [of 131100 None "[(''artFillSource'', 3)]" 1 exampleAtem]
      superSource_version_gate [of 131094 None "[(''artFillSource'', 3)]" 1 exampleAtem]
    by (simp add: v Let_def split: prod.splits)
qed

end
